theory Spec2Isabelle
  imports Main "HOL-Library.Word"
begin

section \<open>The JNI session bridge of session.cc\<close>

text \<open>
  The file \<^verbatim>\<open>session.cc\<close> holds five JNI entry points (allocate, delete, run, extend,
  deviceList) and the helper \<^verbatim>\<open>ListDevicesWithSessionConfig\<close>. Each entry point is a
  straight line of calls into the TensorFlow C API, cut by the early returns of the macros
  \<^verbatim>\<open>REQUIRE_HANDLE\<close>, \<^verbatim>\<open>REQUIRE_HANDLES\<close>, \<^verbatim>\<open>REQUIRE_OUTPUTS\<close> and \<^verbatim>\<open>CHECK_STATUS\<close>.

  The engine is an external collaborator: it is a record of functions here, and every
  theorem holds for every such record. What an entry point does is a record of its return
  value, the Java exception it leaves pending and the list of engine calls it made, in
  order; \<^verbatim>\<open>run\<close> adds the contents of the caller's output array after the call.

  Objects held by a \<^verbatim>\<open>std::unique_ptr\<close> (the status, the two buffers of run, the scratch
  arrays, the device holder) are released by their guard at every return and are not in the
  list of calls. The session options of allocate are released by hand, so
  \<^verbatim>\<open>TF_NewSessionOptions\<close> and \<^verbatim>\<open>TF_DeleteSessionOptions\<close> are.

  An array that comes from the JVM has fewer than \<open>2^31\<close> elements, so
  \<^verbatim>\<open>GetArrayLength\<close> is the length of the list that stands for it, and the conversions
  of such a length between \<^verbatim>\<open>jint\<close>, \<^verbatim>\<open>int\<close> and \<^verbatim>\<open>size_t\<close> keep it. A length that the
  engine gives is a \<^verbatim>\<open>size_t\<close>; where the source narrows one to \<^verbatim>\<open>jsize\<close> (lines 186, 223
  and 225) the model narrows it too.
\<close>

subsection \<open>Values crossing the boundary\<close>

type_synonym jlong = "64 word"
type_synonym jint = "32 word"
type_synonym jbyte = "8 word"
type_synonym bytes = "jbyte list"

datatype TF_Code = TF_OK | TF_INVALID_ARGUMENT | TF_INTERNAL | TF_OTHER nat

record TF_Status =
  status_code :: TF_Code
  status_message :: string

definition TF_NewStatus :: TF_Status where
  "TF_NewStatus = \<lparr>status_code = TF_OK, status_message = []\<rparr>"

definition status_ok :: "TF_Status \<Rightarrow> bool" where
  "status_ok s = (status_code s = TF_OK)"

definition InvalidArgument :: "string \<Rightarrow> TF_Status" where
  "InvalidArgument msg = \<lparr>status_code = TF_INVALID_ARGUMENT, status_message = msg\<rparr>"

definition Internal :: "string \<Rightarrow> TF_Status" where
  "Internal msg = \<lparr>status_code = TF_INTERNAL, status_message = msg\<rparr>"

text \<open>The kinds of native object a handle may stand for (the type argument of the
  \<^verbatim>\<open>REQUIRE_HANDLE\<close> family).\<close>

datatype native_kind = TF_Graph | TF_Session | TF_Tensor | TF_Operation

text \<open>What an entry point leaves pending in the JVM when it fails.\<close>

datatype jvm_exception = InvalidHandle | StatusError TF_Status

record session_options =
  opt_target :: "string option"
  opt_config :: "bytes option"

record TF_Output =
  oper :: jlong
  index :: jint

text \<open>The arguments of one \<^verbatim>\<open>TF_SessionRun\<close> call. \<open>req_run_options\<close> is the options
  buffer (\<open>None\<close> for a null pointer), \<open>req_run_metadata\<close> tells whether a metadata buffer
  was passed.\<close>

record run_request =
  req_session :: jlong
  req_run_options :: "bytes option"
  req_inputs :: "TF_Output list"
  req_input_values :: "jlong list"
  req_ninputs :: nat
  req_outputs :: "TF_Output list"
  req_noutputs :: nat
  req_targets :: "jlong list"
  req_ntargets :: nat
  req_run_metadata :: bool

text \<open>What the engine leaves behind: the status, slot \<open>i\<close> of the \<^verbatim>\<open>output_values\<close>
  array for each \<open>i\<close> below the number of outputs, and the bytes it puts into the metadata
  buffer when there is one.\<close>

record run_reply =
  reply_status :: TF_Status
  reply_output_values :: "nat \<Rightarrow> jlong"
  reply_metadata :: bytes

text \<open>What a validation pass over an array of handles gives: the native references, a
  failure because a handle is invalid, or nothing that the sources or the spec would fix
  (see \<open>short_handles\<close> below).\<close>

datatype 'a required = Resolved 'a | Invalid | Unspecified

text \<open>The surroundings of the bridge. \<open>known\<close> is the resolution table of the handles, the
  \<open>eng_\<close> fields are the engine's primitives. The last two fields are what the passes
  \<^verbatim>\<open>REQUIRE_HANDLES\<close> and \<^verbatim>\<open>REQUIRE_OUTPUTS\<close> do when they are asked for more elements than
  an array has: the macros are not among the sources and the spec does not speak of that case
  (a pass may check the length and fail, resolve whatever lies behind the array, or have no
  defined behaviour), so it is left open, and every theorem holds whatever they do.\<close>

record engine =
  known :: "native_kind \<Rightarrow> jlong \<Rightarrow> bool"
  eng_SetConfig :: "bytes \<Rightarrow> TF_Status"
  eng_NewSession :: "jlong \<Rightarrow> session_options \<Rightarrow> jlong \<times> TF_Status"
  eng_CloseSession :: "jlong \<Rightarrow> TF_Status"
  eng_DeleteSession :: "jlong \<Rightarrow> TF_Status"
  eng_SessionRun :: "run_request \<Rightarrow> run_reply"
  eng_ExtendSession :: "jlong \<Rightarrow> TF_Status"
  short_handles :: "native_kind \<Rightarrow> jlong list \<Rightarrow> nat \<Rightarrow> jlong list required"
  short_outputs :: "jlong list \<Rightarrow> jint list \<Rightarrow> nat \<Rightarrow> TF_Output list required"

datatype event =
    TF_NewSessionOptions
  | TF_SetTarget string
  | TF_SetConfig bytes
  | TF_NewSession jlong session_options
  | Set_extend_before_run jlong bool
  | TF_DeleteSessionOptions
  | TF_CloseSession jlong
  | TF_DeleteSession jlong
  | TF_SessionRun run_request
  | ExtendSession jlong

record ('r, 'e) call_result =
  retval :: 'r
  pending :: "jvm_exception option"
  calls :: "'e list"

record ('r, 'e) run_result = "('r, 'e) call_result" +
  output_handles :: "jlong list"

subsection \<open>The macros of exception.h and utilities.h\<close>

text \<open>Modelled from the spec: the macro \<^verbatim>\<open>CHECK_STATUS(env, status, null_return_value)\<close>
  of exception.h, which is not among the sources. Section 7: every fallible native call's
  status is checked immediately; on failure the enclosing operation aborts further work in
  that call and surfaces the failure as a structured error (code and message). \<open>Some e\<close>
  is the exception thrown, upon which the caller returns its \<^verbatim>\<open>null_return_value\<close>.\<close>

definition CHECK_STATUS :: "TF_Status \<Rightarrow> jvm_exception option" where
  "CHECK_STATUS status = (if status_ok status then None else Some (StatusError status))"

text \<open>Modelled from the spec: the macro \<^verbatim>\<open>REQUIRE_HANDLE(name, type, handle, null_return_value)\<close>
  of exception.h and utilities.h, not among the sources. Section 4.1: given a handle and an
  expected kind, return the native reference or fail with \<open>InvalidHandle\<close> if the handle is
  zero, unknown, or of the wrong kind; a pure lookup. The reference is the handle itself
  (a \<^verbatim>\<open>reinterpret_cast\<close>); \<open>known\<close> is the engine's resolution table.\<close>

definition require_handle :: "engine \<Rightarrow> native_kind \<Rightarrow> jlong \<Rightarrow> jlong option" where
  "require_handle eng k handle =
     (if handle = 0 \<or> \<not> known eng k handle then None else Some handle)"

text \<open>Modelled from the spec: the macro \<^verbatim>\<open>REQUIRE_HANDLES(src_array, dst_array, n, null_return_value)\<close>,
  not among the sources. Section 4.3, step 1: a validation pass over a fixed-size array,
  each element resolved as in section 4.1; any resolution failure aborts. The pass is over
  the first \<open>n\<close> elements; an array with fewer is the case left open.\<close>

fun resolve_handles :: "engine \<Rightarrow> native_kind \<Rightarrow> jlong list \<Rightarrow> jlong list option" where
  "resolve_handles eng k [] = Some []"
| "resolve_handles eng k (h # src) =
     (case require_handle eng k h of
        None \<Rightarrow> None
      | Some p \<Rightarrow>
          (case resolve_handles eng k src of
             None \<Rightarrow> None
           | Some ps \<Rightarrow> Some (p # ps)))"

definition require_handles ::
  "engine \<Rightarrow> native_kind \<Rightarrow> jlong list \<Rightarrow> nat \<Rightarrow> jlong list required" where
  "require_handles eng k src n =
     (if length src < n then short_handles eng k src n
      else (case resolve_handles eng k (take n src) of
              None \<Rightarrow> Invalid
            | Some ps \<Rightarrow> Resolved ps))"

text \<open>Modelled from the spec: the macro \<^verbatim>\<open>REQUIRE_OUTPUTS(src_op, src_index, dst_array, n, null_return_value)\<close>,
  not among the sources. Section 4.3, step 1: the (operation-handle, index) pairs are
  resolved in a validation pass of their own; section 3: an operation reference is the
  pair of an object handle and an output index. The index is not checked. The pass is over
  the first \<open>n\<close> pairs; arrays with fewer are the case left open.\<close>

fun resolve_outputs :: "engine \<Rightarrow> jlong list \<Rightarrow> jint list \<Rightarrow> TF_Output list option" where
  "resolve_outputs eng (h # src_op) (j # src_index) =
     (case require_handle eng TF_Operation h of
        None \<Rightarrow> None
      | Some p \<Rightarrow>
          (case resolve_outputs eng src_op src_index of
             None \<Rightarrow> None
           | Some ps \<Rightarrow> Some (\<lparr>oper = p, index = j\<rparr> # ps)))"
| "resolve_outputs eng src_op src_index = Some []"

definition require_outputs ::
  "engine \<Rightarrow> jlong list \<Rightarrow> jint list \<Rightarrow> nat \<Rightarrow> TF_Output list required" where
  "require_outputs eng src_op src_index n =
     (if length src_op < n \<or> length src_index < n then short_outputs eng src_op src_index n
      else (case resolve_outputs eng (take n src_op) (take n src_index) of
              None \<Rightarrow> Invalid
            | Some ps \<Rightarrow> Resolved ps))"

subsection \<open>allocate\<close>

text \<open>Lines 108 to 123: construct the session, release the options, return the session.\<close>

definition allocate_session ::
  "engine \<Rightarrow> jlong \<Rightarrow> session_options \<Rightarrow> event list \<Rightarrow> (jlong, event) call_result" where
  "allocate_session eng graph options cs =
     (let (session, status) = eng_NewSession eng graph options;
          cs1 = cs @ [TF_NewSession graph options]
      in (case CHECK_STATUS status of
            Some e \<Rightarrow> \<lparr>retval = 0, pending = Some e, calls = cs1\<rparr>
          | None \<Rightarrow>
              \<lparr>retval = session, pending = None,
               calls = cs1 @ [Set_extend_before_run session False, TF_DeleteSessionOptions]\<rparr>))"

definition Session_allocate ::
  "engine \<Rightarrow> jlong \<Rightarrow> string option \<Rightarrow> bytes option \<Rightarrow> (jlong, event) call_result" where
  "Session_allocate eng graph_handle target config_proto =
     (case require_handle eng TF_Graph graph_handle of
        None \<Rightarrow> \<lparr>retval = 0, pending = Some InvalidHandle, calls = []\<rparr>
      | Some graph \<Rightarrow>
          (let options0 = \<lparr>opt_target = None, opt_config = None\<rparr>;
               cs0 = [TF_NewSessionOptions];
               (options1, cs1) =
                 (case target of
                    None \<Rightarrow> (options0, cs0)
                  | Some c_target \<Rightarrow>
                      (options0\<lparr>opt_target := Some c_target\<rparr>, cs0 @ [TF_SetTarget c_target]))
           in (case config_proto of
                 None \<Rightarrow> allocate_session eng graph options1 cs1
               | Some c_config_proto \<Rightarrow>
                   (let status = eng_SetConfig eng c_config_proto;
                        cs2 = cs1 @ [TF_SetConfig c_config_proto]
                    in (case CHECK_STATUS status of
                          Some e \<Rightarrow> \<lparr>retval = 0, pending = Some e, calls = cs2\<rparr>
                        | None \<Rightarrow>
                            allocate_session eng graph
                              (options1\<lparr>opt_config := Some c_config_proto\<rparr>) cs2)))))"

subsection \<open>delete\<close>

definition Session_delete :: "engine \<Rightarrow> jlong \<Rightarrow> (unit, event) call_result" where
  "Session_delete eng handle =
     (case require_handle eng TF_Session handle of
        None \<Rightarrow> \<lparr>retval = (), pending = Some InvalidHandle, calls = []\<rparr>
      | Some session \<Rightarrow>
          (let status = eng_CloseSession eng session;
               cs1 = [TF_CloseSession session]
           in (case CHECK_STATUS status of
                 Some e \<Rightarrow> \<lparr>retval = (), pending = Some e, calls = cs1\<rparr>
               | None \<Rightarrow>
                   (let status = eng_DeleteSession eng session;
                        cs2 = cs1 @ [TF_DeleteSession session]
                    in (case CHECK_STATUS status of
                          Some e \<Rightarrow> \<lparr>retval = (), pending = Some e, calls = cs2\<rparr>
                        | None \<Rightarrow> \<lparr>retval = (), pending = None, calls = cs2\<rparr>)))))"

subsection \<open>run\<close>

text \<open>\<^verbatim>\<open>static_cast<jsize>\<close> of a \<^verbatim>\<open>size_t\<close>: the low 32 bits, read as a signed number.\<close>

definition static_cast_jsize :: "nat \<Rightarrow> int" where
  "static_cast_jsize n =
     (let m = n mod 4294967296
      in if m < 2147483648 then int m else int m - 4294967296)"

text \<open>\<^verbatim>\<open>TF_NewBuffer\<close> gives an empty buffer; \<^verbatim>\<open>TF_NewBufferFromString(data, sz)\<close> one
  holding a copy of the first \<open>sz\<close> bytes of \<open>data\<close>. \<^verbatim>\<open>NewByteArray(n)\<close> gives an array of
  \<open>n\<close> zero bytes, and null for a negative \<open>n\<close>. \<^verbatim>\<open>memcpy(dst, src, n)\<close> overwrites the
  first \<open>n\<close> bytes of \<open>dst\<close> and never makes it longer: with fewer than \<open>n\<close> bytes on
  either side it has no defined behaviour (\<open>None\<close>), and so has every JNI call on a null
  array.\<close>

definition TF_NewBuffer :: bytes where
  "TF_NewBuffer = []"

definition TF_NewBufferFromString :: "bytes \<Rightarrow> nat \<Rightarrow> bytes" where
  "TF_NewBufferFromString dat sz = take sz dat"

definition NewByteArray :: "int \<Rightarrow> bytes option" where
  "NewByteArray n = (if n < 0 then None else Some (replicate (nat n) 0))"

definition memcpy :: "bytes \<Rightarrow> bytes \<Rightarrow> nat \<Rightarrow> bytes option" where
  "memcpy dst src n =
     (if n \<le> length dst \<and> n \<le> length src then Some (take n src @ drop n dst) else None)"

text \<open>Lines 180 and 181: the loop that stores the produced tensors into the elements of the
  caller's array.\<close>

function write_outputs :: "nat \<Rightarrow> nat \<Rightarrow> (nat \<Rightarrow> jlong) \<Rightarrow> jlong list \<Rightarrow> jlong list" where
  "write_outputs i num_outputs output_values output_tensor_handles_array =
     (if i < num_outputs
      then write_outputs (Suc i) num_outputs output_values
             (output_tensor_handles_array[i := output_values i])
      else output_tensor_handles_array)"
  by pat_completeness auto
termination
  by (relation "measure (\<lambda>(i, num_outputs, output_values, arr). num_outputs - i)") auto

text \<open>An early return of run: null, an exception pending, the caller's array as it was.\<close>

definition run_abort ::
  "jvm_exception \<Rightarrow> event list \<Rightarrow> jlong list \<Rightarrow> (bytes option, event) run_result" where
  "run_abort e cs output_tensor_handles =
     \<lparr>retval = None, pending = Some e, calls = cs, output_handles = output_tensor_handles\<rparr>"

text \<open>A call either \<open>Returns\<close> its result or is \<open>Undefined\<close>: it came to a point where
  neither C++ nor JNI says what happens.\<close>

datatype 'a behaviour = Undefined | Returns 'a

text \<open>Lines 159 to 192: wrap the run options, call the engine, check the status, publish
  the outputs and copy the metadata into a new Java array.\<close>

definition run_issue ::
  "engine \<Rightarrow> jlong \<Rightarrow> bytes option \<Rightarrow> TF_Output list \<Rightarrow> jlong list \<Rightarrow> nat \<Rightarrow>
   TF_Output list \<Rightarrow> nat \<Rightarrow> jlong list \<Rightarrow> nat \<Rightarrow> bytes option \<Rightarrow> jlong list \<Rightarrow>
   (bytes option, event) run_result behaviour" where
  "run_issue eng session jrun_options inputs input_values num_inputs outputs num_outputs
     targets num_targets run_metadata output_tensor_handles =
     (let run_options =
            (case jrun_options of
               None \<Rightarrow> None
             | Some jrun_options_data \<Rightarrow>
                 (let sz = length jrun_options_data
                  in if 0 < sz then Some (TF_NewBufferFromString jrun_options_data sz)
                     else None));
          request =
            \<lparr>req_session = session, req_run_options = run_options,
             req_inputs = inputs, req_input_values = input_values, req_ninputs = num_inputs,
             req_outputs = outputs, req_noutputs = num_outputs,
             req_targets = targets, req_ntargets = num_targets,
             req_run_metadata = (run_metadata \<noteq> None)\<rparr>;
          reply = eng_SessionRun eng request;
          status = reply_status reply;
          output_values = reply_output_values reply;
          run_metadata1 =
            (case run_metadata of None \<Rightarrow> None | Some buffer \<Rightarrow> Some (reply_metadata reply))
      in (case CHECK_STATUS status of
            Some e \<Rightarrow> Returns (run_abort e [TF_SessionRun request] output_tensor_handles)
          | None \<Rightarrow>
              (let published =
                     write_outputs 0 num_outputs output_values output_tensor_handles
               in (case run_metadata1 of
                     None \<Rightarrow>
                       Returns \<lparr>retval = None, pending = None,
                                calls = [TF_SessionRun request], output_handles = published\<rparr>
                   | Some buffer \<Rightarrow>
                       (case NewByteArray (static_cast_jsize (length buffer)) of
                          None \<Rightarrow> Undefined
                        | Some elements \<Rightarrow>
                            (case memcpy elements buffer (length buffer) of
                               None \<Rightarrow> Undefined
                             | Some return_array \<Rightarrow>
                                 Returns \<lparr>retval = Some return_array, pending = None,
                                          calls = [TF_SessionRun request],
                                          output_handles = published\<rparr>))))))"

definition Session_run ::
  "engine \<Rightarrow> jlong \<Rightarrow> bytes option \<Rightarrow> jlong list \<Rightarrow> jlong list \<Rightarrow> jint list \<Rightarrow>
   jlong list \<Rightarrow> jint list \<Rightarrow> jlong list \<Rightarrow> bool \<Rightarrow> jlong list \<Rightarrow>
   (bytes option, event) run_result behaviour" where
  "Session_run eng handle jrun_options input_tensor_handles input_op_handles input_op_indices
     output_op_handles output_op_indices target_op_handles want_run_metadata
     output_tensor_handles =
     (case require_handle eng TF_Session handle of
        None \<Rightarrow> Returns (run_abort InvalidHandle [] output_tensor_handles)
      | Some session \<Rightarrow>
          (let num_inputs = length input_tensor_handles;
               num_outputs = length output_tensor_handles;
               num_targets = length target_op_handles;
               run_metadata = (if want_run_metadata then Some TF_NewBuffer else None)
           in (case require_handles eng TF_Tensor input_tensor_handles num_inputs of
                 Unspecified \<Rightarrow> Undefined
               | Invalid \<Rightarrow> Returns (run_abort InvalidHandle [] output_tensor_handles)
               | Resolved input_values \<Rightarrow>
              (case require_outputs eng input_op_handles input_op_indices num_inputs of
                 Unspecified \<Rightarrow> Undefined
               | Invalid \<Rightarrow> Returns (run_abort InvalidHandle [] output_tensor_handles)
               | Resolved inputs \<Rightarrow>
              (case require_outputs eng output_op_handles output_op_indices num_outputs of
                 Unspecified \<Rightarrow> Undefined
               | Invalid \<Rightarrow> Returns (run_abort InvalidHandle [] output_tensor_handles)
               | Resolved outputs \<Rightarrow>
              (case require_handles eng TF_Operation target_op_handles num_targets of
                 Unspecified \<Rightarrow> Undefined
               | Invalid \<Rightarrow> Returns (run_abort InvalidHandle [] output_tensor_handles)
               | Resolved targets \<Rightarrow>
                   run_issue eng session jrun_options inputs input_values num_inputs
                     outputs num_outputs targets num_targets run_metadata
                     output_tensor_handles))))))"

subsection \<open>extend\<close>

definition Session_extend :: "engine \<Rightarrow> jlong \<Rightarrow> (unit, event) call_result" where
  "Session_extend eng handle =
     (case require_handle eng TF_Session handle of
        None \<Rightarrow> \<lparr>retval = (), pending = Some InvalidHandle, calls = []\<rparr>
      | Some session \<Rightarrow>
          (let status = eng_ExtendSession eng session
           in \<lparr>retval = (), pending = CHECK_STATUS status, calls = [ExtendSession session]\<rparr>))"

subsection \<open>deviceList\<close>

text \<open>The device factory and the protocol-message library are collaborators as well:
  \<open>default_config\<close> is a default-constructed \<^verbatim>\<open>ConfigProto\<close>, \<open>ParseFromArray\<close> gives
  \<open>None\<close> when the bytes do not parse, \<open>AddDevices\<close> gives its status and the devices it
  put into the vector, \<open>SerializeToString\<close> the serialized attributes of a device, or
  \<open>None\<close> when that fails.\<close>

record ('cfg, 'dev) device_factory =
  default_config :: 'cfg
  ParseFromArray :: "bytes \<Rightarrow> 'cfg option"
  AddDevices :: "'cfg \<Rightarrow> TF_Status \<times> 'dev list"
  SerializeToString :: "'dev \<Rightarrow> bytes option"

datatype 'cfg factory_event = DeviceFactory_AddDevices 'cfg

text \<open>Lines 64 to 75: the loop over the devices.\<close>

fun serialize_devices ::
  "('cfg, 'dev) device_factory \<Rightarrow> 'dev list \<Rightarrow> bytes list \<Rightarrow> TF_Status \<Rightarrow> bytes list \<times> TF_Status" where
  "serialize_devices fac [] output out_status = (output, out_status)"
| "serialize_devices fac (device # devices) output out_status =
     (case SerializeToString fac device of
        None \<Rightarrow> ([], Internal ''Could not serialize device string'')
      | Some attr_serialized \<Rightarrow>
          serialize_devices fac devices (output @ [attr_serialized]) out_status)"

definition ListDevicesWithSessionConfig ::
  "('cfg, 'dev) device_factory \<Rightarrow> 'cfg \<Rightarrow> TF_Status \<Rightarrow> bytes list \<times> TF_Status" where
  "ListDevicesWithSessionConfig fac config out_status =
     (let (status, devices) = AddDevices fac config;
          out_status1 = (if \<not> status_ok status then status else out_status)
      in serialize_devices fac devices [] out_status1)"

definition ListDevices :: "('cfg, 'dev) device_factory \<Rightarrow> TF_Status \<Rightarrow> bytes list \<times> TF_Status" where
  "ListDevices fac out_status = ListDevicesWithSessionConfig fac (default_config fac) out_status"

text \<open>\<^verbatim>\<open>ListDevicesWithSessionConfig\<close> calls \<^verbatim>\<open>DeviceFactory::AddDevices\<close> once, first
  thing and whatever the configuration, so deviceList records that call where it calls the
  helper. In deviceList below, the branch after a failed parse goes on to the enumeration only
  if \<^verbatim>\<open>CHECK_STATUS\<close> lets it pass; the message object is then whatever the failed parse
  left, for which \<open>default_config\<close> stands.\<close>

text \<open>\<^verbatim>\<open>NewObjectArray(n, class, init)\<close> gives an array of \<open>n\<close> references to \<open>init\<close>,
  and null for a negative \<open>n\<close>.\<close>

definition NewObjectArray :: "int \<Rightarrow> 'a \<Rightarrow> 'a list option" where
  "NewObjectArray n init = (if n < 0 then None else Some (replicate (nat n) init))"

text \<open>Lines 224 to 230: element \<open>i\<close> of the object array is replaced by a new byte array
  holding a copy of descriptor \<open>i\<close>. \<open>None\<close> when an allocation gave null, a copy ran past
  its array or the element is not there.\<close>

function fill_devices :: "nat \<Rightarrow> bytes list \<Rightarrow> bytes list \<Rightarrow> bytes list option" where
  "fill_devices i devices ret =
     (if i < length devices
      then (case NewByteArray (static_cast_jsize (length (devices ! i))) of
              None \<Rightarrow> None
            | Some device \<Rightarrow>
                (case memcpy device (devices ! i) (length (devices ! i)) of
                   None \<Rightarrow> None
                 | Some buffer \<Rightarrow>
                     if i < length ret then fill_devices (Suc i) devices (ret[i := buffer])
                     else None))
      else Some ret)"
  by pat_completeness auto
termination
  by (relation "measure (\<lambda>(i, devices, ret). length devices - i)") auto

text \<open>Lines 223 to 233: the object array has the (narrowed) size of the list and a
  1024-byte array in every element at first.\<close>

definition deviceList_finish ::
  "bytes list \<Rightarrow> 'cfg factory_event list \<Rightarrow>
   (bytes list option, 'cfg factory_event) call_result behaviour" where
  "deviceList_finish devices cs =
     (case NewByteArray 1024 of
        None \<Rightarrow> Undefined
      | Some init \<Rightarrow>
          (case NewObjectArray (static_cast_jsize (length devices)) init of
             None \<Rightarrow> Undefined
           | Some ret0 \<Rightarrow>
               (case fill_devices 0 devices ret0 of
                  None \<Rightarrow> Undefined
                | Some ret \<Rightarrow> Returns \<lparr>retval = Some ret, pending = None, calls = cs\<rparr>)))"

definition Session_deviceList ::
  "('cfg, 'dev) device_factory \<Rightarrow> bytes option \<Rightarrow>
   (bytes list option, 'cfg factory_event) call_result behaviour" where
  "Session_deviceList fac config_proto =
     (case config_proto of
        None \<Rightarrow>
          (let (devices, status) = ListDevices fac TF_NewStatus;
               cs = [DeviceFactory_AddDevices (default_config fac)]
           in (case CHECK_STATUS status of
                 Some e \<Rightarrow> Returns \<lparr>retval = None, pending = Some e, calls = cs\<rparr>
               | None \<Rightarrow> deviceList_finish devices cs))
      | Some c_str_config_proto \<Rightarrow>
          (case ParseFromArray fac c_str_config_proto of
             None \<Rightarrow>
               (let status =
                      InvalidArgument ''Could not parse the provided session config proto.''
                in (case CHECK_STATUS status of
                      Some e \<Rightarrow> Returns \<lparr>retval = None, pending = Some e, calls = []\<rparr>
                    | None \<Rightarrow>
                        (let (devices, status) =
                               ListDevicesWithSessionConfig fac (default_config fac) status;
                             cs = [DeviceFactory_AddDevices (default_config fac)]
                         in (case CHECK_STATUS status of
                               Some e \<Rightarrow>
                                 Returns \<lparr>retval = None, pending = Some e, calls = cs\<rparr>
                             | None \<Rightarrow> deviceList_finish devices cs))))
           | Some c_config_proto \<Rightarrow>
               (let (devices, status) =
                      ListDevicesWithSessionConfig fac c_config_proto TF_NewStatus;
                    cs = [DeviceFactory_AddDevices c_config_proto]
                in (case CHECK_STATUS status of
                      Some e \<Rightarrow> Returns \<lparr>retval = None, pending = Some e, calls = cs\<rparr>
                    | None \<Rightarrow> deviceList_finish devices cs))))"

subsection \<open>Notions used in the statements\<close>

text \<open>A handle is valid for a kind when it is not zero and the resolution table knows it
  under that kind.\<close>

definition valid_handle :: "engine \<Rightarrow> native_kind \<Rightarrow> jlong \<Rightarrow> bool" where
  "valid_handle eng k h = (h \<noteq> 0 \<and> known eng k h)"

text \<open>The length precondition of run: the parallel arrays of operation handles and output
  indices are at least as long as the array that gives the count.\<close>

definition run_lengths_ok ::
  "jlong list \<Rightarrow> jlong list \<Rightarrow> jint list \<Rightarrow> jlong list \<Rightarrow> jint list \<Rightarrow> jlong list \<Rightarrow> bool" where
  "run_lengths_ok input_tensor_handles input_op_handles input_op_indices
     output_op_handles output_op_indices output_tensor_handles =
     (length input_tensor_handles \<le> length input_op_handles \<and>
      length input_tensor_handles \<le> length input_op_indices \<and>
      length output_tensor_handles \<le> length output_op_handles \<and>
      length output_tensor_handles \<le> length output_op_indices)"

text \<open>The operation references a run is about: the first \<open>n\<close> handles paired with the
  first \<open>n\<close> indices.\<close>

definition endpoints :: "nat \<Rightarrow> jlong list \<Rightarrow> jint list \<Rightarrow> TF_Output list" where
  "endpoints n op_handles op_indices =
     map (\<lambda>(h, j). \<lparr>oper = h, index = j\<rparr>) (zip (take n op_handles) (take n op_indices))"

text \<open>The handles a run is about are all valid: the session, the input tensors, the first
  \<open>N\<close> input operations, the first \<open>M\<close> output operations and the targets, where \<open>N\<close>
  and \<open>M\<close> are the lengths of the input and output tensor handle arrays.\<close>

definition run_handles_valid ::
  "engine \<Rightarrow> jlong \<Rightarrow> jlong list \<Rightarrow> jlong list \<Rightarrow> jlong list \<Rightarrow> jlong list \<Rightarrow>
   jlong list \<Rightarrow> bool" where
  "run_handles_valid eng handle input_tensor_handles input_op_handles output_op_handles
     target_op_handles output_tensor_handles =
     (valid_handle eng TF_Session handle \<and>
      (\<forall>h\<in>set input_tensor_handles. valid_handle eng TF_Tensor h) \<and>
      (\<forall>h\<in>set (take (length input_tensor_handles) input_op_handles).
          valid_handle eng TF_Operation h) \<and>
      (\<forall>h\<in>set (take (length output_tensor_handles) output_op_handles).
          valid_handle eng TF_Operation h) \<and>
      (\<forall>h\<in>set target_op_handles. valid_handle eng TF_Operation h))"

text \<open>The request that run puts to the engine once every handle has been resolved, written
  from the arguments of run.\<close>

definition run_request_of ::
  "jlong \<Rightarrow> bytes option \<Rightarrow> jlong list \<Rightarrow> jlong list \<Rightarrow> jint list \<Rightarrow>
   jlong list \<Rightarrow> jint list \<Rightarrow> jlong list \<Rightarrow> bool \<Rightarrow> jlong list \<Rightarrow> run_request" where
  "run_request_of handle jrun_options input_tensor_handles input_op_handles input_op_indices
     output_op_handles output_op_indices target_op_handles want_run_metadata
     output_tensor_handles =
     \<lparr>req_session = handle,
      req_run_options =
        (case jrun_options of None \<Rightarrow> None | Some d \<Rightarrow> if d = [] then None else Some d),
      req_inputs = endpoints (length input_tensor_handles) input_op_handles input_op_indices,
      req_input_values = input_tensor_handles,
      req_ninputs = length input_tensor_handles,
      req_outputs = endpoints (length output_tensor_handles) output_op_handles output_op_indices,
      req_noutputs = length output_tensor_handles,
      req_targets = target_op_handles,
      req_ntargets = length target_op_handles,
      req_run_metadata = want_run_metadata\<rparr>"

subsection \<open>Stub engines and a stub device factory\<close>

text \<open>The stub knows the handles below 16. It rejects every non-empty configuration,
  cannot build a session on graph 3, cannot close session 2, and runs whatever it is asked
  to, except on session 4: the tensor of output \<open>i\<close> is \<open>100 + i\<close>, the metadata the
  bytes 1, 2, 3. Its validation passes have no defined behaviour on a short array.\<close>

definition stub_engine :: engine where
  "stub_engine =
     \<lparr>known = (\<lambda>k h. h < 16),
      eng_SetConfig =
        (\<lambda>b. if b = [] then TF_NewStatus else InvalidArgument ''Unparseable ConfigProto''),
      eng_NewSession =
        (\<lambda>g opts. if g = 3 then (0, Internal ''no session'') else (7, TF_NewStatus)),
      eng_CloseSession = (\<lambda>s. if s = 2 then Internal ''close failed'' else TF_NewStatus),
      eng_DeleteSession = (\<lambda>s. TF_NewStatus),
      eng_SessionRun =
        (\<lambda>req. \<lparr>reply_status =
                   (if req_session req = 4 then Internal ''run failed'' else TF_NewStatus),
                 reply_output_values = (\<lambda>i. 100 + of_nat i),
                 reply_metadata = [1, 2, 3]\<rparr>),
      eng_ExtendSession = (\<lambda>s. TF_NewStatus),
      short_handles = (\<lambda>k src n. Unspecified),
      short_outputs = (\<lambda>src_op src_index n. Unspecified)\<rparr>"

text \<open>The same engine, with metadata of \<open>2^31\<close> zero bytes.\<close>

definition big_metadata_engine :: engine where
  "big_metadata_engine =
     stub_engine\<lparr>eng_SessionRun :=
       (\<lambda>req. \<lparr>reply_status = TF_NewStatus,
                reply_output_values = (\<lambda>i. 100 + of_nat i),
                reply_metadata = replicate 2147483648 0\<rparr>)\<rparr>"

text \<open>The request of the example run used below: on session \<open>s\<close>, tensor 5 fed into
  output 0 of operation 6, outputs 0 of operation 7 and 1 of operation 8 fetched, target
  operation 9, no run options.\<close>

definition example_request :: "jlong \<Rightarrow> bool \<Rightarrow> run_request" where
  "example_request s want =
     \<lparr>req_session = s, req_run_options = None,
      req_inputs = [\<lparr>oper = 6, index = 0\<rparr>], req_input_values = [5], req_ninputs = 1,
      req_outputs = [\<lparr>oper = 7, index = 0\<rparr>, \<lparr>oper = 8, index = 1\<rparr>], req_noutputs = 2,
      req_targets = [9], req_ntargets = 1, req_run_metadata = want\<rparr>"

text \<open>The stub factory parses the empty byte sequence into configuration 0, the single
  byte 1 into configuration 1 and the single byte 2 into configuration 2, and nothing else.
  Under configuration 0 it instantiates devices 1 and 2; under configuration 1 devices 1
  and 9, under any other devices 1 and 10, and then it fails. Device \<open>d\<close> serializes to the
  single byte \<open>d\<close>, except device 10, which does not serialize.\<close>

definition stub_factory :: "(nat, nat) device_factory" where
  "stub_factory =
     \<lparr>default_config = 0,
      ParseFromArray =
        (\<lambda>b. if b = [] then Some 0 else if b = [1] then Some 1
              else if b = [2] then Some 2 else None),
      AddDevices =
        (\<lambda>c. if c = 0 then (TF_NewStatus, [1, 2])
              else if c = 1 then (Internal ''no gpu'', [1, 9])
              else (Internal ''no gpu'', [1, 10])),
      SerializeToString = (\<lambda>d. if d = 10 then None else Some [of_nat d])\<rparr>"

section \<open>Properties\<close>

subsection \<open>Handle validation\<close>

lemma require_handle_None: "require_handle eng k h = None \<longleftrightarrow> \<not> valid_handle eng k h"
  by (simp add: require_handle_def valid_handle_def)

lemma require_handle_Some: "require_handle eng k h = Some p \<longleftrightarrow> valid_handle eng k h \<and> p = h"
  by (auto simp: require_handle_def valid_handle_def)

lemma resolve_handles_eq:
  "resolve_handles eng k src =
     (if \<forall>h\<in>set src. valid_handle eng k h then Some src else None)"
proof (induction src)
  case Nil
  show ?case by simp
next
  case (Cons h src)
  show ?case
  proof (cases "valid_handle eng k h")
    case True
    then have "require_handle eng k h = Some h" by (simp add: require_handle_Some)
    with Cons True show ?thesis by simp
  next
    case False
    then have "require_handle eng k h = None" by (simp add: require_handle_None)
    with False show ?thesis by simp
  qed
qed

lemma resolve_outputs_eq:
  "length src_op = length src_index \<Longrightarrow>
     resolve_outputs eng src_op src_index =
       (if \<forall>h\<in>set src_op. valid_handle eng TF_Operation h
        then Some (map (\<lambda>(h, j). \<lparr>oper = h, index = j\<rparr>) (zip src_op src_index)) else None)"
proof (induction src_op src_index rule: list_induct2)
  case Nil
  show ?case by simp
next
  case (Cons h src_op j src_index)
  show ?case
  proof (cases "valid_handle eng TF_Operation h")
    case True
    then have "require_handle eng TF_Operation h = Some h" by (simp add: require_handle_Some)
    with Cons True show ?thesis by simp
  next
    case False
    then have "require_handle eng TF_Operation h = None" by (simp add: require_handle_None)
    with False show ?thesis by simp
  qed
qed

text \<open>On an array that is long enough a pass is fixed by the handles alone.\<close>

lemma require_handles_long:
  "n \<le> length src \<Longrightarrow>
     require_handles eng k src n =
       (if \<forall>h\<in>set (take n src). valid_handle eng k h then Resolved (take n src) else Invalid)"
  by (simp add: require_handles_def resolve_handles_eq)

lemma require_outputs_long:
  "n \<le> length src_op \<Longrightarrow> n \<le> length src_index \<Longrightarrow>
     require_outputs eng src_op src_index n =
       (if \<forall>h\<in>set (take n src_op). valid_handle eng TF_Operation h
        then Resolved (endpoints n src_op src_index) else Invalid)"
  by (simp add: require_outputs_def resolve_outputs_eq endpoints_def)

lemma length_endpoints:
  "n \<le> length src_op \<Longrightarrow> n \<le> length src_index \<Longrightarrow>
     length (endpoints n src_op src_index) = n"
  by (simp add: endpoints_def)

subsection \<open>The copies\<close>

lemma static_cast_jsize_small: "n < 2147483648 \<Longrightarrow> static_cast_jsize n = int n"
  by (simp add: static_cast_jsize_def Let_def)

lemma static_cast_jsize_large:
  assumes "2147483648 \<le> n"
  shows "static_cast_jsize n < 0 \<or> nat (static_cast_jsize n) < n"
proof (cases "n mod 4294967296 < 2147483648")
  case True
  then have "static_cast_jsize n = int (n mod 4294967296)"
    by (simp add: static_cast_jsize_def Let_def)
  moreover have "n mod 4294967296 < n"
    using True assms by linarith
  ultimately show ?thesis by simp
next
  case False
  have "n mod 4294967296 < 4294967296" by simp
  with False have "static_cast_jsize n < 0"
    by (simp add: static_cast_jsize_def Let_def)
  then show ?thesis ..
qed

text \<open>Lines 186 to 189 and 225 to 228: a new array of the narrowed length, filled by
  \<^verbatim>\<open>memcpy\<close>, holds the bytes exactly when there are fewer than \<open>2^31\<close> of them.\<close>

lemma copy_to_new_array:
  "(case NewByteArray (static_cast_jsize (length b)) of
      None \<Rightarrow> None
    | Some elements \<Rightarrow> memcpy elements b (length b)) =
   (if length b < 2147483648 then Some b else None)"
proof (cases "length b < 2147483648")
  case True
  then show ?thesis
    by (simp add: static_cast_jsize_small NewByteArray_def memcpy_def)
next
  case False
  then have "2147483648 \<le> length b" by simp
  from static_cast_jsize_large[OF this] False show ?thesis
    by (auto simp: NewByteArray_def memcpy_def)
qed

declare write_outputs.simps [simp del]

declare fill_devices.simps [simp del]

lemma write_outputs_step:
  "i < n \<Longrightarrow> write_outputs i n f arr = write_outputs (Suc i) n f (arr[i := f i])"
  by (subst write_outputs.simps) simp

lemma write_outputs_stop: "\<not> i < n \<Longrightarrow> write_outputs i n f arr = arr"
  by (subst write_outputs.simps) simp

lemma length_write_outputs: "length (write_outputs i n f arr) = length arr"
proof (induction i n f arr rule: write_outputs.induct)
  case (1 i n f arr)
  show ?case
  proof (cases "i < n")
    case True
    with 1 show ?thesis by (simp add: write_outputs_step)
  next
    case False
    then show ?thesis by (simp add: write_outputs_stop)
  qed
qed

lemma nth_write_outputs:
  "j < length arr \<Longrightarrow>
     write_outputs i n f arr ! j = (if i \<le> j \<and> j < n then f j else arr ! j)"
proof (induction i n f arr rule: write_outputs.induct)
  case (1 i n f arr)
  show ?case
  proof (cases "i < n")
    case True
    have "write_outputs i n f arr ! j = write_outputs (Suc i) n f (arr[i := f i]) ! j"
      using True by (simp add: write_outputs_step)
    also have "\<dots> = (if Suc i \<le> j \<and> j < n then f j else arr[i := f i] ! j)"
      using 1 True by simp
    also have "\<dots> = (if i \<le> j \<and> j < n then f j else arr ! j)"
      using 1(2) True by (cases "i = j") auto
    finally show ?thesis .
  next
    case False
    then show ?thesis by (auto simp: write_outputs_stop)
  qed
qed

lemma write_outputs_all:
  "write_outputs 0 (length arr) f arr = map f [0..<length arr]"
  by (rule nth_equalityI) (simp_all add: length_write_outputs nth_write_outputs)

subsection \<open>Properties of run\<close>

lemma not_ok_InvalidArgument [simp]: "\<not> status_ok (InvalidArgument msg)"
  by (simp add: status_ok_def InvalidArgument_def)

lemma not_ok_Internal [simp]: "\<not> status_ok (Internal msg)"
  by (simp add: status_ok_def Internal_def)

lemma ok_NewStatus [simp]: "status_ok TF_NewStatus"
  by (simp add: status_ok_def TF_NewStatus_def)

text \<open>What the second half of run does, by the engine's reply.\<close>

lemma run_issue_eq:
  "run_issue eng session jro inputs input_values ni outputs no targets nt md oth =
     (let req = \<lparr>req_session = session,
                 req_run_options =
                   (case jro of None \<Rightarrow> None | Some d \<Rightarrow> if d = [] then None else Some d),
                 req_inputs = inputs, req_input_values = input_values, req_ninputs = ni,
                 req_outputs = outputs, req_noutputs = no,
                 req_targets = targets, req_ntargets = nt,
                 req_run_metadata = (md \<noteq> None)\<rparr>;
          reply = eng_SessionRun eng req
      in if \<not> status_ok (reply_status reply)
         then Returns (run_abort (StatusError (reply_status reply)) [TF_SessionRun req] oth)
         else if md \<noteq> None \<and> \<not> length (reply_metadata reply) < 2147483648 then Undefined
         else Returns
                \<lparr>retval = (case md of None \<Rightarrow> None | Some b \<Rightarrow> Some (reply_metadata reply)),
                 pending = None, calls = [TF_SessionRun req],
                 output_handles = write_outputs 0 no (reply_output_values reply) oth\<rparr>)"
proof -
  have copy: "(case NewByteArray (static_cast_jsize (length b)) of
                None \<Rightarrow> Undefined
              | Some elements \<Rightarrow>
                  (case memcpy elements b (length b) of
                     None \<Rightarrow> Undefined
                   | Some return_array \<Rightarrow> Returns (r return_array))) =
             (if length b < 2147483648 then Returns (r b) else Undefined)"
    for b :: bytes and r :: "bytes \<Rightarrow> (bytes option, event) run_result"
    using copy_to_new_array[of b]
    by (cases "NewByteArray (static_cast_jsize (length b))") (auto split: if_splits)
  show ?thesis
    by (cases jro; cases md)
       (simp_all add: run_issue_def Let_def CHECK_STATUS_def copy TF_NewBufferFromString_def)
qed

text \<open>Every returning call of the second half is of one of two kinds.\<close>

lemma run_issue_cases:
  assumes r: "run_issue eng session jro inputs input_values ni outputs no targets nt md oth =
                Returns r"
  obtains
    (ok) req where "calls r = [TF_SessionRun req]"
      "status_ok (reply_status (eng_SessionRun eng req))"
      "pending r = None"
      "retval r = (case md of None \<Rightarrow> None
                   | Some b \<Rightarrow> Some (reply_metadata (eng_SessionRun eng req)))"
      "md \<noteq> None \<Longrightarrow> length (reply_metadata (eng_SessionRun eng req)) < 2147483648"
      "output_handles r = write_outputs 0 no (reply_output_values (eng_SessionRun eng req)) oth"
      "req_run_options req = (case jro of None \<Rightarrow> None
                              | Some d \<Rightarrow> if d = [] then None else Some d)"
      "req_ninputs req = ni" "req_noutputs req = no" "req_ntargets req = nt"
      "req_run_metadata req = (md \<noteq> None)"
  | (failed) req where "calls r = [TF_SessionRun req]"
      "\<not> status_ok (reply_status (eng_SessionRun eng req))"
      "pending r = Some (StatusError (reply_status (eng_SessionRun eng req)))"
      "retval r = None"
      "output_handles r = oth"
      "req_run_options req = (case jro of None \<Rightarrow> None
                              | Some d \<Rightarrow> if d = [] then None else Some d)"
      "req_ninputs req = ni" "req_noutputs req = no" "req_ntargets req = nt"
      "req_run_metadata req = (md \<noteq> None)"
proof -
  define req where "req = \<lparr>req_session = session,
                 req_run_options =
                   (case jro of None \<Rightarrow> None | Some d \<Rightarrow> if d = [] then None else Some d),
                 req_inputs = inputs, req_input_values = input_values, req_ninputs = ni,
                 req_outputs = outputs, req_noutputs = no,
                 req_targets = targets, req_ntargets = nt,
                 req_run_metadata = (md \<noteq> None)\<rparr>"
  have q: "req_run_options req = (case jro of None \<Rightarrow> None
                              | Some d \<Rightarrow> if d = [] then None else Some d)"
      "req_ninputs req = ni" "req_noutputs req = no" "req_ntargets req = nt"
      "req_run_metadata req = (md \<noteq> None)"
    by (simp_all add: req_def)
  have e: "Returns r =
      (if \<not> status_ok (reply_status (eng_SessionRun eng req))
         then Returns (run_abort (StatusError (reply_status (eng_SessionRun eng req)))
                [TF_SessionRun req] oth)
         else if md \<noteq> None \<and> \<not> length (reply_metadata (eng_SessionRun eng req)) < 2147483648
         then Undefined
         else Returns
                \<lparr>retval = (case md of None \<Rightarrow> None
                            | Some b \<Rightarrow> Some (reply_metadata (eng_SessionRun eng req))),
                 pending = None, calls = [TF_SessionRun req],
                 output_handles =
                   write_outputs 0 no (reply_output_values (eng_SessionRun eng req)) oth\<rparr>)"
    using r unfolding run_issue_eq req_def Let_def by simp
  show thesis
  proof (cases "status_ok (reply_status (eng_SessionRun eng req))")
    case True
    with e have m: "md \<noteq> None \<Longrightarrow> length (reply_metadata (eng_SessionRun eng req)) < 2147483648"
      by (auto split: if_splits)
    with e True have "r = \<lparr>retval = (case md of None \<Rightarrow> None
                            | Some b \<Rightarrow> Some (reply_metadata (eng_SessionRun eng req))),
                 pending = None, calls = [TF_SessionRun req],
                 output_handles =
                   write_outputs 0 no (reply_output_values (eng_SessionRun eng req)) oth\<rparr>"
      by (auto split: if_splits)
    with True q m show thesis by (intro ok[of req]) simp_all
  next
    case False
    with e have "r = run_abort (StatusError (reply_status (eng_SessionRun eng req)))
                [TF_SessionRun req] oth" by simp
    with False q show thesis by (intro failed[of req]) (simp_all add: run_abort_def)
  qed
qed

text \<open>The two ways in which run returns.\<close>

lemma Session_run_Returns:
  assumes run: "Session_run eng handle jro ith ioh ioi ooh ooi toh want oth = Returns r"
  obtains (abort) "r = run_abort InvalidHandle [] oth"
  | (issue) inputs input_values outputs targets where
      "run_issue eng handle jro inputs input_values (length ith) outputs (length oth)
         targets (length toh) (if want then Some TF_NewBuffer else None) oth = Returns r"
proof (cases "require_handle eng TF_Session handle")
  case None
  with run have "r = run_abort InvalidHandle [] oth"
    by (simp add: Session_run_def)
  then show thesis by (rule abort)
next
  case (Some session)
  then have s: "session = handle" by (simp add: require_handle_Some)
  show thesis
  proof (cases "require_handles eng TF_Tensor ith (length ith)")
    case Invalid
    with run Some have "r = run_abort InvalidHandle [] oth" by (simp add: Session_run_def)
    then show thesis by (rule abort)
  next
    case Unspecified
    with run Some show thesis by (simp add: Session_run_def)
  next
    case r1: (Resolved input_values)
    show thesis
    proof (cases "require_outputs eng ioh ioi (length ith)")
      case Invalid
      with run Some r1 have "r = run_abort InvalidHandle [] oth"
        by (simp add: Session_run_def)
      then show thesis by (rule abort)
    next
      case Unspecified
      with run Some r1 show thesis by (simp add: Session_run_def)
    next
      case r2: (Resolved inputs)
      show thesis
      proof (cases "require_outputs eng ooh ooi (length oth)")
        case Invalid
        with run Some r1 r2 have "r = run_abort InvalidHandle [] oth"
          by (simp add: Session_run_def)
        then show thesis by (rule abort)
      next
        case Unspecified
        with run Some r1 r2 show thesis by (simp add: Session_run_def)
      next
        case r3: (Resolved outputs)
        show thesis
        proof (cases "require_handles eng TF_Operation toh (length toh)")
          case Invalid
          with run Some r1 r2 r3 have "r = run_abort InvalidHandle [] oth"
            by (simp add: Session_run_def)
          then show thesis by (rule abort)
        next
          case Unspecified
          with run Some r1 r2 r3 show thesis by (simp add: Session_run_def)
        next
          case r4: (Resolved targets)
          with run Some r1 r2 r3 s
          have "run_issue eng handle jro inputs input_values (length ith) outputs (length oth)
                  targets (length toh) (if want then Some TF_NewBuffer else None) oth = Returns r"
            by (simp add: Session_run_def Let_def)
          then show thesis by (rule issue)
        qed
      qed
    qed
  qed
qed

text \<open>Under the length precondition run is fixed by the handles and the engine.\<close>

lemma Session_run_long:
  assumes "run_lengths_ok ith ioh ioi ooh ooi oth"
  shows "Session_run eng handle jro ith ioh ioi ooh ooi toh want oth =
           (if run_handles_valid eng handle ith ioh ooh toh oth
            then run_issue eng handle jro (endpoints (length ith) ioh ioi) ith (length ith)
                   (endpoints (length oth) ooh ooi) (length oth) toh (length toh)
                   (if want then Some TF_NewBuffer else None) oth
            else Returns (run_abort InvalidHandle [] oth))"
proof -
  have l: "length ith \<le> length ioh" "length ith \<le> length ioi"
          "length oth \<le> length ooh" "length oth \<le> length ooi"
    using assms by (simp_all add: run_lengths_ok_def)
  show ?thesis
  proof (cases "valid_handle eng TF_Session handle")
    case False
    then show ?thesis
      by (simp add: Session_run_def run_handles_valid_def require_handle_None[THEN iffD2])
  next
    case True
    then have s: "require_handle eng TF_Session handle = Some handle"
      by (simp add: require_handle_Some)
    show ?thesis
      unfolding Session_run_def s Let_def
      by (simp add: require_handles_long require_outputs_long l run_handles_valid_def True)
  qed
qed

lemma run_issue_request:
  "run_issue eng handle jro (endpoints (length ith) ioh ioi) ith (length ith)
     (endpoints (length oth) ooh ooi) (length oth) toh (length toh)
     (if want then Some TF_NewBuffer else None) oth =
   (let req = run_request_of handle jro ith ioh ioi ooh ooi toh want oth;
        reply = eng_SessionRun eng req
    in if \<not> status_ok (reply_status reply)
       then Returns (run_abort (StatusError (reply_status reply)) [TF_SessionRun req] oth)
       else if want \<and> \<not> length (reply_metadata reply) < 2147483648 then Undefined
       else Returns
              \<lparr>retval = (if want then Some (reply_metadata reply) else None),
               pending = None, calls = [TF_SessionRun req],
               output_handles = map (reply_output_values reply) [0..<length oth]\<rparr>)"
  by (simp add: run_issue_eq run_request_of_def Let_def write_outputs_all)

text \<open>A run on valid handles, under the length precondition.\<close>

lemma Session_run_valid:
  assumes "run_lengths_ok ith ioh ioi ooh ooi oth"
    and "run_handles_valid eng handle ith ioh ooh toh oth"
  shows "Session_run eng handle jro ith ioh ioi ooh ooi toh want oth =
   (let req = run_request_of handle jro ith ioh ioi ooh ooi toh want oth;
        reply = eng_SessionRun eng req
    in if \<not> status_ok (reply_status reply)
       then Returns (run_abort (StatusError (reply_status reply)) [TF_SessionRun req] oth)
       else if want \<and> \<not> length (reply_metadata reply) < 2147483648 then Undefined
       else Returns
              \<lparr>retval = (if want then Some (reply_metadata reply) else None),
               pending = None, calls = [TF_SessionRun req],
               output_handles = map (reply_output_values reply) [0..<length oth]\<rparr>)"
  using assms by (simp add: Session_run_long run_issue_request)

text \<open>Evaluating run on the stub engine.\<close>

lemma stub_valid [simp]:
  "valid_handle stub_engine k h \<longleftrightarrow> h \<noteq> 0 \<and> h < 16"
  "valid_handle big_metadata_engine k h \<longleftrightarrow> h \<noteq> 0 \<and> h < 16"
  by (simp_all add: valid_handle_def stub_engine_def big_metadata_engine_def)

lemma stub_reply [simp]:
  "eng_SessionRun stub_engine req =
     \<lparr>reply_status = (if req_session req = 4 then Internal ''run failed'' else TF_NewStatus),
      reply_output_values = (\<lambda>i. 100 + of_nat i), reply_metadata = [1, 2, 3]\<rparr>"
  by (simp add: stub_engine_def)

lemma big_reply [simp]:
  "eng_SessionRun big_metadata_engine req =
     \<lparr>reply_status = TF_NewStatus, reply_output_values = (\<lambda>i. 100 + of_nat i),
      reply_metadata = replicate 2147483648 0\<rparr>"
  by (simp add: big_metadata_engine_def)

lemmas stub_run_simps =
  Session_run_valid run_lengths_ok_def run_handles_valid_def run_request_of_def endpoints_def
  example_request_def run_abort_def Let_def









text \<open>Claim C8. After a successful run, element \<open>i\<close> of the caller's output array is the
  tensor the engine produced in slot \<open>i\<close>, for every \<open>i\<close> below the number \<open>M\<close> of
  outputs, and the array keeps its length. A run whose request the engine accepted has
  succeeded. A run on valid handles whose request the engine accepts (with metadata, if
  wanted, shorter than \<open>2^31\<close> bytes) does succeed, with every output written; in
  particular a run with \<open>M = 0\<close> outputs succeeds, puts a request for no outputs to the
  engine and leaves the empty output array empty.\<close>

theorem run_success_writes_outputs:
  "(\<forall>r. Session_run eng handle jrun_options input_tensor_handles input_op_handles
          input_op_indices output_op_handles output_op_indices target_op_handles
          want_run_metadata output_tensor_handles = Returns r \<and> pending r = None \<longrightarrow>
        (\<exists>req. calls r = [TF_SessionRun req] \<and>
               status_ok (reply_status (eng_SessionRun eng req)) \<and>
               req_noutputs req = length output_tensor_handles \<and>
               length (output_handles r) = length output_tensor_handles \<and>
               (\<forall>i<length output_tensor_handles.
                  output_handles r ! i = reply_output_values (eng_SessionRun eng req) i))) \<and>
   (\<forall>r req. Session_run eng handle jrun_options input_tensor_handles input_op_handles
          input_op_indices output_op_handles output_op_indices target_op_handles
          want_run_metadata output_tensor_handles = Returns r \<and>
        TF_SessionRun req \<in> set (calls r) \<and>
        status_ok (reply_status (eng_SessionRun eng req)) \<longrightarrow> pending r = None) \<and>
   (run_lengths_ok input_tensor_handles input_op_handles input_op_indices
      output_op_handles output_op_indices output_tensor_handles \<and>
    run_handles_valid eng handle input_tensor_handles input_op_handles output_op_handles
      target_op_handles output_tensor_handles \<and>
    status_ok (reply_status (eng_SessionRun eng
      (run_request_of handle jrun_options input_tensor_handles input_op_handles
         input_op_indices output_op_handles output_op_indices target_op_handles
         want_run_metadata output_tensor_handles))) \<and>
    (want_run_metadata \<longrightarrow>
       length (reply_metadata (eng_SessionRun eng
         (run_request_of handle jrun_options input_tensor_handles input_op_handles
            input_op_indices output_op_handles output_op_indices target_op_handles
            want_run_metadata output_tensor_handles))) < 2147483648) \<longrightarrow>
    (\<exists>r. Session_run eng handle jrun_options input_tensor_handles input_op_handles
            input_op_indices output_op_handles output_op_indices target_op_handles
            want_run_metadata output_tensor_handles = Returns r \<and>
          pending r = None \<and>
          calls r = [TF_SessionRun
            (run_request_of handle jrun_options input_tensor_handles input_op_handles
               input_op_indices output_op_handles output_op_indices target_op_handles
               want_run_metadata output_tensor_handles)] \<and>
          output_handles r =
            map (reply_output_values (eng_SessionRun eng
                  (run_request_of handle jrun_options input_tensor_handles input_op_handles
                     input_op_indices output_op_handles output_op_indices target_op_handles
                     want_run_metadata output_tensor_handles)))
              [0..<length output_tensor_handles])) \<and>
   (run_lengths_ok input_tensor_handles input_op_handles input_op_indices
      output_op_handles output_op_indices [] \<and>
    run_handles_valid eng handle input_tensor_handles input_op_handles output_op_handles
      target_op_handles [] \<and>
    status_ok (reply_status (eng_SessionRun eng
      (run_request_of handle jrun_options input_tensor_handles input_op_handles
         input_op_indices output_op_handles output_op_indices target_op_handles
         want_run_metadata []))) \<and>
    (want_run_metadata \<longrightarrow>
       length (reply_metadata (eng_SessionRun eng
         (run_request_of handle jrun_options input_tensor_handles input_op_handles
            input_op_indices output_op_handles output_op_indices target_op_handles
            want_run_metadata []))) < 2147483648) \<longrightarrow>
    (\<exists>r. Session_run eng handle jrun_options input_tensor_handles input_op_handles
            input_op_indices output_op_handles output_op_indices target_op_handles
            want_run_metadata [] = Returns r \<and>
          pending r = None \<and>
          req_noutputs (run_request_of handle jrun_options input_tensor_handles
            input_op_handles input_op_indices output_op_handles output_op_indices
            target_op_handles want_run_metadata []) = 0 \<and>
          calls r = [TF_SessionRun
            (run_request_of handle jrun_options input_tensor_handles input_op_handles
               input_op_indices output_op_handles output_op_indices target_op_handles
               want_run_metadata [])] \<and>
          output_handles r = []))"
  (is "?written \<and> ?accepted \<and> ?succeeds \<and> ?targets_only")
proof (intro conjI)
  show ?written
  proof (intro allI impI, elim conjE)
    fix r
    assume run: "Session_run eng handle jrun_options input_tensor_handles input_op_handles
          input_op_indices output_op_handles output_op_indices target_op_handles
          want_run_metadata output_tensor_handles = Returns r"
      and success: "pending r = None"
    from run show "\<exists>req. calls r = [TF_SessionRun req] \<and>
               status_ok (reply_status (eng_SessionRun eng req)) \<and>
               req_noutputs req = length output_tensor_handles \<and>
               length (output_handles r) = length output_tensor_handles \<and>
               (\<forall>i<length output_tensor_handles.
                  output_handles r ! i = reply_output_values (eng_SessionRun eng req) i)"
    proof (cases rule: Session_run_Returns)
      case abort
      with success show ?thesis by (simp add: run_abort_def)
    next
      case (issue inputs input_values outputs targets)
      then show ?thesis
      proof (cases rule: run_issue_cases)
        case (ok req)
        then show ?thesis
          by (intro exI[of _ req]) (simp add: length_write_outputs nth_write_outputs)
      next
        case (failed req)
        with success show ?thesis by simp
      qed
    qed
  qed
next
  show ?accepted
  proof (intro allI impI, elim conjE)
    fix r req
    assume run: "Session_run eng handle jrun_options input_tensor_handles input_op_handles
          input_op_indices output_op_handles output_op_indices target_op_handles
          want_run_metadata output_tensor_handles = Returns r"
      and issued: "TF_SessionRun req \<in> set (calls r)"
      and accepted: "status_ok (reply_status (eng_SessionRun eng req))"
    from run show "pending r = None"
    proof (cases rule: Session_run_Returns)
      case abort
      with issued show ?thesis by (simp add: run_abort_def)
    next
      case (issue inputs input_values outputs targets)
      then show ?thesis
      proof (cases rule: run_issue_cases)
        case (ok req')
        then show ?thesis by simp
      next
        case (failed req')
        with issued accepted show ?thesis by simp
      qed
    qed
  qed
next
  show ?succeeds
    by (auto simp: Session_run_valid Let_def)
next
  show ?targets_only
    by (auto simp: Session_run_valid Let_def run_request_of_def)
qed

theorem run_success_writes_outputs_witness:
  "Session_run stub_engine 1 None [] [] [] [7, 8, 9] [0, 1, 0] [] False [1, 2, 3] =
     Returns \<lparr>retval = None, pending = None,
              calls = [TF_SessionRun
                \<lparr>req_session = 1, req_run_options = None,
                 req_inputs = [], req_input_values = [], req_ninputs = 0,
                 req_outputs = [\<lparr>oper = 7, index = 0\<rparr>, \<lparr>oper = 8, index = 1\<rparr>,
                                \<lparr>oper = 9, index = 0\<rparr>], req_noutputs = 3,
                 req_targets = [], req_ntargets = 0, req_run_metadata = False\<rparr>],
              output_handles = [100, 101, 102]\<rparr> \<and>
   Session_run stub_engine 1 None [] [] [] [] [] [9] False [] =
     Returns \<lparr>retval = None, pending = None,
              calls = [TF_SessionRun
                \<lparr>req_session = 1, req_run_options = None,
                 req_inputs = [], req_input_values = [], req_ninputs = 0,
                 req_outputs = [], req_noutputs = 0,
                 req_targets = [9], req_ntargets = 1, req_run_metadata = False\<rparr>],
              output_handles = []\<rparr>"
  (is "?a = Returns ?ra \<and> ?b = Returns ?rb")
proof -
  have a: "?a = Returns ?ra" by (simp add: stub_run_simps upt_rec)
  have b: "?b = Returns ?rb" by (simp add: stub_run_simps)
  note t = run_success_writes_outputs[of stub_engine 1 None "[]" "[]" "[]" "[7, 8, 9]"
      "[0, 1, 0]" "[]" False "[1, 2, 3]"]
  note u = run_success_writes_outputs[of stub_engine 1 None "[]" "[]" "[]" "[]" "[]" "[9]"
      False "[]"]
  from t u a b show ?thesis by simp
qed

lemma run_issue_empty_options:
  "run_issue eng session (Some []) inputs input_values ni outputs no targets nt md oth =
   run_issue eng session None inputs input_values ni outputs no targets nt md oth"
  by (simp add: run_issue_eq)

text \<open>Claim C9. A run-options array of length zero behaves exactly as no run-options
  array: the two calls are equal, and the request that reaches the engine carries no options
  buffer.\<close>

theorem run_empty_options_is_no_options:
  "Session_run eng handle (Some []) input_tensor_handles input_op_handles
     input_op_indices output_op_handles output_op_indices target_op_handles
     want_run_metadata output_tensor_handles =
   Session_run eng handle None input_tensor_handles input_op_handles
     input_op_indices output_op_handles output_op_indices target_op_handles
     want_run_metadata output_tensor_handles \<and>
   (\<forall>r req. Session_run eng handle (Some []) input_tensor_handles input_op_handles
              input_op_indices output_op_handles output_op_indices target_op_handles
              want_run_metadata output_tensor_handles = Returns r \<and>
            TF_SessionRun req \<in> set (calls r) \<longrightarrow> req_run_options req = None)"
proof (intro conjI allI impI)
  show "Session_run eng handle (Some []) input_tensor_handles input_op_handles
     input_op_indices output_op_handles output_op_indices target_op_handles
     want_run_metadata output_tensor_handles =
   Session_run eng handle None input_tensor_handles input_op_handles
     input_op_indices output_op_handles output_op_indices target_op_handles
     want_run_metadata output_tensor_handles"
    unfolding Session_run_def run_issue_empty_options ..
next
  fix r req
  assume a: "Session_run eng handle (Some []) input_tensor_handles input_op_handles
              input_op_indices output_op_handles output_op_indices target_op_handles
              want_run_metadata output_tensor_handles = Returns r \<and>
            TF_SessionRun req \<in> set (calls r)"
  then have run: "Session_run eng handle (Some []) input_tensor_handles input_op_handles
              input_op_indices output_op_handles output_op_indices target_op_handles
              want_run_metadata output_tensor_handles = Returns r"
    and issued: "TF_SessionRun req \<in> set (calls r)" by simp_all
  from run show "req_run_options req = None"
  proof (cases rule: Session_run_Returns)
    case abort
    with issued show ?thesis by (simp add: run_abort_def)
  next
    case (issue inputs input_values outputs targets)
    then show ?thesis
    proof (cases rule: run_issue_cases)
      case (ok req')
      with issued show ?thesis by simp
    next
      case (failed req')
      with issued show ?thesis by simp
    qed
  qed
qed

theorem run_empty_options_is_no_options_witness:
  "Session_run stub_engine 1 (Some []) [5] [6] [0] [7, 8] [0, 1] [9] True [0, 0] =
     Returns \<lparr>retval = Some [1, 2, 3], pending = None,
              calls = [TF_SessionRun (example_request 1 True)],
              output_handles = [100, 101]\<rparr> \<and>
   Session_run stub_engine 1 None [5] [6] [0] [7, 8] [0, 1] [9] True [0, 0] =
     Returns \<lparr>retval = Some [1, 2, 3], pending = None,
              calls = [TF_SessionRun (example_request 1 True)],
              output_handles = [100, 101]\<rparr> \<and>
   req_run_options (example_request 1 True) = None"
  (is "?a = Returns ?r \<and> ?b = Returns ?r \<and> ?none")
proof -
  have a: "?a = Returns ?r" by (simp add: stub_run_simps)
  note t = run_empty_options_is_no_options[of stub_engine 1 "[5]" "[6]" "[0]" "[7, 8]" "[0, 1]"
      "[9]" True "[0, 0]"]
  from t a have b: "?b = Returns ?r" by simp
  from t a have ?none by simp
  with a b show ?thesis by simp
qed






subsection \<open>Properties of delete\<close>

lemma Session_delete_close_failed:
  assumes "valid_handle eng TF_Session handle" "\<not> status_ok (eng_CloseSession eng handle)"
  shows "Session_delete eng handle =
           \<lparr>retval = (), pending = Some (StatusError (eng_CloseSession eng handle)),
            calls = [TF_CloseSession handle]\<rparr>"
  using assms
  by (simp add: Session_delete_def require_handle_def valid_handle_def CHECK_STATUS_def)

lemma Session_delete_close_ok:
  assumes "valid_handle eng TF_Session handle" "status_ok (eng_CloseSession eng handle)"
  shows "calls (Session_delete eng handle) = [TF_CloseSession handle, TF_DeleteSession handle]"
  using assms
  by (simp add: Session_delete_def require_handle_def valid_handle_def CHECK_STATUS_def Let_def)

text \<open>Claim C3. The claim is that the deletion is attempted even when the close reports a
  non-ok status, as the comment on line 132 says (the result of close is ignored). The code
  checks the status of the close first: on the stub, whose session 2 is valid and cannot be
  closed, delete calls \<^verbatim>\<open>TF_CloseSession\<close>, leaves the close error pending and returns;
  \<^verbatim>\<open>TF_DeleteSession\<close> is not among its calls.\<close>

theorem delete_stops_after_failed_close:
  "valid_handle stub_engine TF_Session 2 \<and>
   \<not> status_ok (eng_CloseSession stub_engine 2) \<and>
   Session_delete stub_engine 2 =
     \<lparr>retval = (), pending = Some (StatusError (Internal ''close failed'')),
      calls = [TF_CloseSession 2]\<rparr> \<and>
   TF_DeleteSession 2 \<notin> set (calls (Session_delete stub_engine 2))"
  by (simp add: Session_delete_def require_handle_def valid_handle_def CHECK_STATUS_def
      stub_engine_def status_ok_def Internal_def)

subsection \<open>Properties of allocate\<close>

lemma allocate_session_releases_iff:
  "TF_DeleteSessionOptions \<in> set (calls (allocate_session eng graph options cs)) \<longleftrightarrow>
     TF_DeleteSessionOptions \<in> set cs \<or> pending (allocate_session eng graph options cs) = None"
  by (cases "eng_NewSession eng graph options")
     (auto simp: allocate_session_def CHECK_STATUS_def)

lemma Session_allocate_releases_iff:
  assumes "valid_handle eng TF_Graph graph_handle"
  shows "TF_DeleteSessionOptions \<in> set (calls (Session_allocate eng graph_handle target config_proto))
         \<longleftrightarrow> pending (Session_allocate eng graph_handle target config_proto) = None"
  using assms
  by (cases target; cases config_proto)
     (auto simp: Session_allocate_def require_handle_def valid_handle_def Let_def
        allocate_session_releases_iff CHECK_STATUS_def)

text \<open>Claim C4. The claim is that the session options are released on every exit path of
  allocate. The code releases them on line 113, after both status checks: on the stub, a
  configuration that is rejected and a session that cannot be built each end the call with
  \<^verbatim>\<open>TF_NewSessionOptions\<close> among the calls and no \<^verbatim>\<open>TF_DeleteSessionOptions\<close>; the
  successful call ends with the release.\<close>

theorem allocate_keeps_options_on_failure:
  "Session_allocate stub_engine 1 None (Some [1]) =
     \<lparr>retval = 0, pending = Some (StatusError (InvalidArgument ''Unparseable ConfigProto'')),
      calls = [TF_NewSessionOptions, TF_SetConfig [1]]\<rparr> \<and>
   Session_allocate stub_engine 3 (Some ''local'') None =
     \<lparr>retval = 0, pending = Some (StatusError (Internal ''no session'')),
      calls = [TF_NewSessionOptions, TF_SetTarget ''local'',
               TF_NewSession 3 \<lparr>opt_target = Some ''local'', opt_config = None\<rparr>]\<rparr> \<and>
   Session_allocate stub_engine 1 (Some ''local'') (Some []) =
     \<lparr>retval = 7, pending = None,
      calls = [TF_NewSessionOptions, TF_SetTarget ''local'', TF_SetConfig [],
               TF_NewSession 1 \<lparr>opt_target = Some ''local'', opt_config = Some []\<rparr>,
               Set_extend_before_run 7 False, TF_DeleteSessionOptions]\<rparr>"
  by (simp add: Session_allocate_def allocate_session_def require_handle_def CHECK_STATUS_def
      stub_engine_def status_ok_def Internal_def InvalidArgument_def TF_NewStatus_def)

subsection \<open>Properties of deviceList\<close>

text \<open>Claim C6. Given configuration bytes that do not parse, deviceList returns null with
  the parse error pending (invalid argument, with the message of line 217) and has made no
  call to the device factory: no device was instantiated and no list of descriptors built.\<close>

theorem deviceList_parse_failure:
  assumes "ParseFromArray fac c_str_config_proto = None"
  shows "Session_deviceList fac (Some c_str_config_proto) =
           Returns \<lparr>retval = None,
            pending = Some (StatusError
              (InvalidArgument ''Could not parse the provided session config proto.'')),
            calls = []\<rparr>"
  using assms by (simp add: Session_deviceList_def CHECK_STATUS_def)

theorem deviceList_parse_failure_witness:
  "ParseFromArray stub_factory [255] = None \<and>
   Session_deviceList stub_factory (Some [255]) =
     Returns \<lparr>retval = None,
      pending = Some (StatusError
        (InvalidArgument ''Could not parse the provided session config proto.'')),
      calls = []\<rparr>"
proof -
  have p: "ParseFromArray stub_factory [255] = None"
    by (simp add: stub_factory_def)
  from deviceList_parse_failure[OF p] p show ?thesis by simp
qed

lemma serialize_devices_all:
  "\<forall>d\<in>set devices. SerializeToString fac d \<noteq> None \<Longrightarrow>
     serialize_devices fac devices out out_status =
       (out @ List.map_filter (SerializeToString fac) devices, out_status)"
  by (induction devices arbitrary: out) (auto simp: List.map_filter_simps)

lemma serialize_devices_fails:
  "\<exists>d\<in>set devices. SerializeToString fac d = None \<Longrightarrow>
     serialize_devices fac devices out out_status =
       ([], Internal ''Could not serialize device string'')"
proof (induction devices arbitrary: out)
  case Nil
  then show ?case by simp
next
  case (Cons d devices)
  show ?case
  proof (cases "SerializeToString fac d")
    case None
    then show ?thesis by simp
  next
    case (Some s)
    with Cons.prems have "\<exists>d\<in>set devices. SerializeToString fac d = None" by auto
    with Cons.IH Some show ?thesis by simp
  qed
qed

text \<open>Claim C7, as stated, fails on \<^verbatim>\<open>ListDevicesWithSessionConfig\<close>: under configuration
  1 the stub factory instantiates devices 1 and 9 and reports a failure, and the function
  returns the descriptors of both together with the failure: the list is not cleared.\<close>

theorem ListDevicesWithSessionConfig_keeps_partial_list:
  "AddDevices stub_factory 1 = (Internal ''no gpu'', [1, 9]) \<and>
   \<not> status_ok (Internal ''no gpu'') \<and>
   ListDevicesWithSessionConfig stub_factory 1 TF_NewStatus =
     ([[1], [9]], Internal ''no gpu'')"
  by (simp add: ListDevicesWithSessionConfig_def stub_factory_def)

text \<open>Claim C7, amended. When \<^verbatim>\<open>AddDevices\<close> reports a non-ok status, the failure is
  reported and the caller gets no list: deviceList returns null, with the status of
  \<^verbatim>\<open>AddDevices\<close> pending when every instantiated device serializes, and the internal
  serialization error pending otherwise. \<^verbatim>\<open>ListDevicesWithSessionConfig\<close> clears its list
  only in the second case; in the first it returns the descriptors of all the devices that
  were instantiated, together with the non-ok status.\<close>

theorem deviceList_failed_instantiation:
  assumes cfg: "(config_proto = None \<and> config = default_config fac) \<or>
                (\<exists>c. config_proto = Some c \<and> ParseFromArray fac c = Some config)"
    and add: "AddDevices fac config = (status, devices)"
    and failed: "\<not> status_ok status"
  shows "Session_deviceList fac config_proto =
           Returns \<lparr>retval = None,
             pending = Some (StatusError
               (if \<forall>d\<in>set devices. SerializeToString fac d \<noteq> None then status
                else Internal ''Could not serialize device string'')),
             calls = [DeviceFactory_AddDevices config]\<rparr> \<and>
         ListDevicesWithSessionConfig fac config TF_NewStatus =
           (if \<forall>d\<in>set devices. SerializeToString fac d \<noteq> None
            then (List.map_filter (SerializeToString fac) devices, status)
            else ([], Internal ''Could not serialize device string''))"
proof -
  let ?l = "ListDevicesWithSessionConfig fac config TF_NewStatus"
  have l: "?l = serialize_devices fac devices [] status"
    using add failed by (simp add: ListDevicesWithSessionConfig_def)
  have entry: "Session_deviceList fac config_proto =
           Returns \<lparr>retval = None, pending = Some (StatusError s),
             calls = [DeviceFactory_AddDevices config]\<rparr>"
    if "?l = (ds, s)" and "\<not> status_ok s" for ds s
    using cfg that
    by (auto simp: Session_deviceList_def ListDevices_def CHECK_STATUS_def)
  show ?thesis
  proof (cases "\<forall>d\<in>set devices. SerializeToString fac d \<noteq> None")
    case True
    then have h: "?l = (List.map_filter (SerializeToString fac) devices, status)"
      unfolding l by (simp add: serialize_devices_all)
    from entry[OF h failed] h True show ?thesis by simp
  next
    case False
    then have ex: "\<exists>d\<in>set devices. SerializeToString fac d = None" by simp
    have h: "?l = ([], Internal ''Could not serialize device string'')"
      unfolding l by (rule serialize_devices_fails[OF ex])
    have "\<not> status_ok (Internal ''Could not serialize device string'')" by simp
    from entry[OF h this] h False show ?thesis by (simp only: if_False simp_thms)
  qed
qed

theorem deviceList_failed_instantiation_witness:
  "ParseFromArray stub_factory [1] = Some 1 \<and>
   AddDevices stub_factory 1 = (Internal ''no gpu'', [1, 9]) \<and>
   Session_deviceList stub_factory (Some [1]) =
     Returns \<lparr>retval = None, pending = Some (StatusError (Internal ''no gpu'')),
              calls = [DeviceFactory_AddDevices 1]\<rparr> \<and>
   ListDevicesWithSessionConfig stub_factory 1 TF_NewStatus = ([[1], [9]], Internal ''no gpu'') \<and>
   ParseFromArray stub_factory [2] = Some 2 \<and>
   AddDevices stub_factory 2 = (Internal ''no gpu'', [1, 10]) \<and>
   Session_deviceList stub_factory (Some [2]) =
     Returns \<lparr>retval = None,
              pending = Some (StatusError (Internal ''Could not serialize device string'')),
              calls = [DeviceFactory_AddDevices 2]\<rparr> \<and>
   ListDevicesWithSessionConfig stub_factory 2 TF_NewStatus =
     ([], Internal ''Could not serialize device string'')"
proof -
  have p1: "(Some [1::jbyte] = None \<and> 1 = default_config stub_factory) \<or>
           (\<exists>c. Some [1::jbyte] = Some c \<and> ParseFromArray stub_factory c = Some 1)"
    and p2: "(Some [2::jbyte] = None \<and> 2 = default_config stub_factory) \<or>
           (\<exists>c. Some [2::jbyte] = Some c \<and> ParseFromArray stub_factory c = Some 2)"
    by (simp_all add: stub_factory_def)
  have a1: "AddDevices stub_factory 1 = (Internal ''no gpu'', [1, 9])"
    and a2: "AddDevices stub_factory 2 = (Internal ''no gpu'', [1, 10])"
    by (simp_all add: stub_factory_def)
  have f: "\<not> status_ok (Internal ''no gpu'')" by simp
  have s: "SerializeToString stub_factory = (\<lambda>d. if d = 10 then None else Some [of_nat d])"
    by (simp add: stub_factory_def)
  from deviceList_failed_instantiation[OF p1 a1 f] deviceList_failed_instantiation[OF p2 a2 f]
    a1 a2
  show ?thesis
    by (simp add: s List.map_filter_simps) (simp add: stub_factory_def)
qed

end
